theory Spec2Isabelle
  imports Complex_Main
begin

section \<open>JavaScript values and builtins\<close>

text \<open>
  A JavaScript number is a double: \<open>NaN\<close>, an infinity, or a finite value, kept here as
  the rational it denotes. The two zeros are one value; no check below tells them
  apart.
\<close>

datatype js_number = NaN | NegInfinity | Finite rat | PosInfinity

text \<open>
  Strings are lists of characters. Three builtins are parameters of the model:
  \<open>toLowerCase\<close> is \<open>String.prototype.toLowerCase\<close>; \<open>Number_other\<close> is \<open>Number(text)\<close>
  for the texts whose value is not computed below (anything but a plain decimal of at
  most 20 significant digits); \<open>isUrl\<close> tells whether a text parses as a URL.
\<close>

record js_env =
  toLowerCase :: "string \<Rightarrow> string"
  Number_other :: "string \<Rightarrow> js_number"
  isUrl :: "string \<Rightarrow> bool"

text \<open>
  An optional string property is \<open>None\<close> when it is \<open>undefined\<close>. In a condition such
  a value counts as true only when it is a non-empty string, so \<open>a || b\<close> on an optional
  string and a default text yields the default for \<open>undefined\<close> and for \<open>""\<close>.
\<close>

definition or_else :: "string option \<Rightarrow> string \<Rightarrow> string" where
  "or_else v d = (case v of None \<Rightarrow> d | Some s \<Rightarrow> if s = [] then d else s)"

text \<open>Decimal rendering of a non-negative integer inside a template literal.\<close>

fun show_nat :: "nat \<Rightarrow> string" where
  "show_nat n =
     (if n < 10 then [char_of (48 + n)]
      else show_nat (n div 10) @ [char_of (48 + n mod 10)])"

section \<open>Brand daily orders tab\<close>

subsection \<open>Entities\<close>

text \<open>
  Modelled from the spec: the types \<open>SoftInventoryItem\<close> and \<open>BrandDailyOrderItem\<close> of
  \<open>@/types/ecommerce\<close>, a module that is not among the source files. The fields are
  those the specification's data model lists and the tab reads; \<open>color\<close> is optional,
  a quantity is an integer.
\<close>

record SoftInventoryItem =
  si_sku :: string
  si_size :: string
  si_color :: "string option"
  si_quantity :: int

record BrandDailyOrderItem =
  order_id :: string
  order_sku :: string
  order_color :: "string option"
  order_size :: string
  order_quantity :: int

subsection \<open>Stock lookup\<close>

text \<open>
  The predicate handed to \<open>softInventory.find\<close>: sku and size are compared with
  \<open>===\<close>; when \<open>color\<close> is truthy (a non-empty string) the entry's colour must be
  present and equal to it after lower-casing both (\<open>si.color?.toLowerCase()\<close> is
  \<open>undefined\<close> for an entry without colour, which is never \<open>===\<close> to a string).
\<close>

definition lineMatches :: "js_env \<Rightarrow> string \<Rightarrow> string \<Rightarrow> string option \<Rightarrow> SoftInventoryItem \<Rightarrow> bool" where
  "lineMatches env sku sz color si =
     (si_sku si = sku \<and> si_size si = sz \<and>
      (case color of
         None \<Rightarrow> True
       | Some c \<Rightarrow>
           if c = [] then True
           else (case si_color si of
                   None \<Rightarrow> False
                 | Some sc \<Rightarrow> toLowerCase env sc = toLowerCase env c)))"

text \<open>
  \<open>find\<close> yields the first entry, in snapshot order, that satisfies the predicate; the
  result is that entry's \<open>quantity > 0\<close>, and \<open>false\<close> when no entry was found.
\<close>

definition checkSoftStock :: "js_env \<Rightarrow> string \<Rightarrow> string \<Rightarrow> string option \<Rightarrow> SoftInventoryItem list \<Rightarrow> bool" where
  "checkSoftStock env sku sz color softInventory =
     (case find (lineMatches env sku sz color) softInventory of
        Some item \<Rightarrow> si_quantity item > 0
      | None \<Rightarrow> False)"

text \<open>
  The stock lookup as the specification words it: some entry of the snapshot matches the
  line and has a positive quantity.
\<close>

definition spec_checkSoftStock :: "js_env \<Rightarrow> string \<Rightarrow> string \<Rightarrow> string option \<Rightarrow> SoftInventoryItem list \<Rightarrow> bool" where
  "spec_checkSoftStock env sku sz color softInventory =
     list_ex (\<lambda>si. lineMatches env sku sz color si \<and> si_quantity si > 0) softInventory"

text \<open>
  The lookup for one order, \<open>checkSoftStock(o.sku, o.size, o.color, softInventory)\<close>,
  as the columns of the table and the submit handler call it.
\<close>

definition orderInStock :: "js_env \<Rightarrow> SoftInventoryItem list \<Rightarrow> BrandDailyOrderItem \<Rightarrow> bool" where
  "orderInStock env softInventory order =
     checkSoftStock env (order_sku order) (order_size order) (order_color order) softInventory"

subsection \<open>Header checkbox of the selection column\<close>

text \<open>
  A table row carries its row id and the order it shows. \<open>table.getFilteredRowModel().rows\<close>
  is a list of such rows. The checkbox reports \<open>true\<close>, \<open>false\<close> or \<open>'indeterminate'\<close>;
  the last one is a non-empty string and so counts as true in \<open>if (value)\<close>.
\<close>

record row =
  row_id :: string
  original :: BrandDailyOrderItem

datatype CheckedState = Checked bool | Indeterminate

fun truthy_checked :: "CheckedState \<Rightarrow> bool" where
  "truthy_checked (Checked b) = b"
| "truthy_checked Indeterminate = True"

type_synonym RowSelectionState = "string \<rightharpoonup> bool"

definition outOfStockRowIds :: "js_env \<Rightarrow> SoftInventoryItem list \<Rightarrow> row list \<Rightarrow> string list" where
  "outOfStockRowIds env softInventory rows =
     map row_id (filter (\<lambda>r. \<not> orderInStock env softInventory (original r)) rows)"

text \<open>
  \<open>onCheckedChange\<close> of the header checkbox: the selection handed to
  \<open>table.setRowSelection\<close>.
\<close>

definition selectAll_onCheckedChange ::
  "js_env \<Rightarrow> SoftInventoryItem list \<Rightarrow> row list \<Rightarrow> CheckedState \<Rightarrow> RowSelectionState" where
  "selectAll_onCheckedChange env softInventory rows v =
     (if truthy_checked v
      then foldl (\<lambda>newSelection i. newSelection(i \<mapsto> True)) Map.empty
             (outOfStockRowIds env softInventory rows)
      else Map.empty)"

subsection \<open>Responses, promises and effects\<close>

text \<open>
  Modelled from the spec: the response envelope of \<open>@/lib/apiService\<close>, a module that is
  not among the source files. Every call of the API client yields an envelope
  \<open>{type, data?, message?}\<close>. The
  field \<open>rdata\<close> is the payload the caller reads through \<open>response.data?.x\<close>: \<open>None\<close>
  when \<open>data\<close> or the property is missing (an array, even an empty one, counts as
  present). An awaited call either resolves with an envelope or rejects with an error,
  of which only the optional \<open>message\<close> is ever read; the outcome is an argument of the
  handler that awaits it.
\<close>

datatype resp_type = OK | ERROR

record 'a response =
  rtype :: resp_type
  rdata :: "'a option"
  rmessage :: "string option"

datatype 'a outcome = Resolves 'a | Rejects "string option"

text \<open>
  What a handler does besides updating the component state, in the order it does it:
  toasts, console warnings, requests to the API client and navigation.
\<close>

datatype variant = Default | Destructive

datatype 'c effect =
    Toast string string variant
  | ConsoleWarn "string option"
  | ApiCall 'c
  | RouterPush string
  | RouterRefresh

fun apiCalls :: "'c effect list \<Rightarrow> 'c list" where
  "apiCalls [] = []"
| "apiCalls (ApiCall c # es) = c # apiCalls es"
| "apiCalls (_ # es) = apiCalls es"

datatype tab_call =
    getBrandDailyOrders string string
  | getSoftInventoryItems int int string
  | submitBrandOrdersToPlaced string "string list"

record tab_props =
  prop_brandId :: string
  prop_brandName :: string
  prop_today :: string

record tab_state =
  dailyOrders :: "BrandDailyOrderItem list"
  softInventory :: "SoftInventoryItem list"
  tab_isLoading :: bool
  isSubmitting :: bool
  rowSelection :: RowSelectionState

subsection \<open>Loading the tab\<close>

text \<open>
  \<open>fetchData\<close> of the tab runs up to its \<open>await\<close> when it is called (the \<open>start\<close>
  part) and continues when both requests have settled (the \<open>finish\<close> part);
  \<open>Promise.all\<close> rejects as soon as one of them does.
\<close>

definition tab_fetchData_start :: "tab_props \<Rightarrow> tab_state \<Rightarrow> tab_state \<times> tab_call effect list" where
  "tab_fetchData_start props st =
     (st\<lparr>tab_isLoading := True\<rparr>,
      [ApiCall (getBrandDailyOrders (prop_brandId props) (prop_today props)),
       ApiCall (getSoftInventoryItems 1 500 (prop_brandName props))])"

definition tab_fetchData_finish ::
  "(BrandDailyOrderItem list response \<times> SoftInventoryItem list response) outcome
     \<Rightarrow> tab_state \<Rightarrow> tab_state \<times> tab_call effect list" where
  "tab_fetchData_finish settled st =
     (case settled of
        Resolves (ordersResponse, softInventoryResponse) \<Rightarrow>
          let (st1, e1) =
                (case rdata ordersResponse of
                   Some orders \<Rightarrow>
                     if rtype ordersResponse = OK then (st\<lparr>dailyOrders := orders\<rparr>, [])
                     else (st, [Toast ''Error''
                                 (or_else (rmessage ordersResponse) ''Failed to fetch daily orders.'')
                                 Destructive])
                 | None \<Rightarrow>
                     (st, [Toast ''Error''
                            (or_else (rmessage ordersResponse) ''Failed to fetch daily orders.'')
                            Destructive]));
              (st2, e2) =
                (case rdata softInventoryResponse of
                   Some items \<Rightarrow>
                     if rtype softInventoryResponse = OK then (st1\<lparr>softInventory := items\<rparr>, [])
                     else (st1\<lparr>softInventory := []\<rparr>,
                           [ConsoleWarn (rmessage softInventoryResponse)])
                 | None \<Rightarrow>
                     (st1\<lparr>softInventory := []\<rparr>,
                      [ConsoleWarn (rmessage softInventoryResponse)]))
          in (st2\<lparr>tab_isLoading := False\<rparr>, e1 @ e2)
      | Rejects _ \<Rightarrow>
          (st\<lparr>tab_isLoading := False\<rparr>,
           [Toast ''Error'' ''An error occurred while fetching data.'' Destructive]))"

subsection \<open>Submitting the selected orders\<close>

text \<open>
  \<open>Object.keys(rowSelection).filter(id => rowSelection[id])\<close> holds exactly the keys whose
  value is \<open>true\<close>, so \<open>selectedOrderIds.includes(order.id)\<close> is the test below.
\<close>

definition isSelectedId :: "RowSelectionState \<Rightarrow> string \<Rightarrow> bool" where
  "isSelectedId sel i = (sel i = Some True)"

definition ordersToSubmit :: "tab_state \<Rightarrow> BrandDailyOrderItem list" where
  "ordersToSubmit st =
     filter (\<lambda>order. isSelectedId (rowSelection st) (order_id order)) (dailyOrders st)"

definition actualOutOfStockOrders :: "js_env \<Rightarrow> tab_state \<Rightarrow> BrandDailyOrderItem list" where
  "actualOutOfStockOrders env st =
     filter (\<lambda>order. \<not> orderInStock env (softInventory st) order) (ordersToSubmit st)"

text \<open>
  The handler, with the outcome of \<open>submitBrandOrdersToPlaced\<close> and of the reload it
  starts on success as arguments. The reload is started and not awaited: the
  \<open>finally\<close> block runs before the reload continues.
\<close>

definition handleSubmitSelected ::
  "js_env \<Rightarrow> tab_props \<Rightarrow> tab_state \<Rightarrow> unit response outcome
     \<Rightarrow> (BrandDailyOrderItem list response \<times> SoftInventoryItem list response) outcome
     \<Rightarrow> tab_state \<times> tab_call effect list" where
  "handleSubmitSelected env props st submitted reloaded =
     (let st1 = st\<lparr>isSubmitting := True\<rparr> in
      if ordersToSubmit st = [] then
        (st1\<lparr>isSubmitting := False\<rparr>,
         [Toast ''No Orders Selected'' ''Please select out-of-stock orders to submit.'' Default])
      else if actualOutOfStockOrders env st = [] then
        (st1\<lparr>isSubmitting := False, rowSelection := Map.empty\<rparr>,
         [Toast ''No Out-of-Stock Orders''
            ''All selected orders appear to be in stock. No action taken.'' Default])
      else
        let call = ApiCall (submitBrandOrdersToPlaced (prop_brandId props)
                     (map order_id (actualOutOfStockOrders env st)))
        in case submitted of
             Resolves response \<Rightarrow>
               if rtype response = OK then
                 let st2 = st1\<lparr>rowSelection := Map.empty\<rparr>;
                     (st3, e3) = tab_fetchData_start props st2;
                     st4 = st3\<lparr>isSubmitting := False\<rparr>;
                     (st5, e5) = tab_fetchData_finish reloaded st4
                 in (st5,
                     [call,
                      Toast ''Success''
                        (show_nat (length (actualOutOfStockOrders env st))
                           @ '' orders submitted to '' @ [CHR 0x27] @ ''Order Placed''
                           @ [CHR 0x27] @ ''.'')
                        Default]
                     @ e3 @ e5)
               else
                 (st1\<lparr>isSubmitting := False\<rparr>,
                  [call,
                   Toast ''Error'' (or_else (rmessage response) ''Failed to submit orders.'')
                     Destructive])
           | Rejects _ \<Rightarrow>
               (st1\<lparr>isSubmitting := False\<rparr>,
                [call,
                 Toast ''Error'' ''An error occurred during submission.'' Destructive]))"

text \<open>The order-id lists a run of the handler handed to \<open>submitBrandOrdersToPlaced\<close>.\<close>

fun submittedIds :: "tab_call list \<Rightarrow> string list list" where
  "submittedIds [] = []"
| "submittedIds (submitBrandOrdersToPlaced b ids # cs) = ids # submittedIds cs"
| "submittedIds (_ # cs) = submittedIds cs"

section \<open>Product form\<close>

subsection \<open>Numbers typed into the form\<close>

text \<open>
  \<open>to_double n d\<close> is the double nearest to the positive rational \<open>n / d\<close>, ties going
  to the even significand: the exponent \<open>e\<close> is that of \<open>n / d\<close> but not below -1022
  (subnormal numbers), the value is rounded to a multiple of \<open>2 ^ (e - 52)\<close>, and a
  value of at least \<open>2 ^ 1024 - 2 ^ 970\<close> rounds to infinity. All of it is integer
  arithmetic on \<open>n\<close> and \<open>d\<close>.
\<close>

function bit_length :: "int \<Rightarrow> int" where
  "bit_length n = (if n \<le> 0 then 0 else 1 + bit_length (n div 2))"
  by pat_completeness auto
termination
  by (relation "measure nat") auto

definition pow2 :: "int \<Rightarrow> rat" where
  "pow2 k = (if 0 \<le> k then 2 ^ nat k else 1 / 2 ^ nat (- k))"

definition scale2 :: "int \<Rightarrow> int \<Rightarrow> int" where
  "scale2 k n = (if 0 < k then n * 2 ^ nat k else n)"

definition floor_log2 :: "int \<Rightarrow> int \<Rightarrow> int" where
  "floor_log2 n d =
     (let k = bit_length n - bit_length d
      in if scale2 k d \<le> scale2 (- k) n then k else k - 1)"

definition round_half_even :: "int \<Rightarrow> int \<Rightarrow> int" where
  "round_half_even p q =
     (let f = p div q; r = 2 * (p mod q)
      in if r < q then f else if q < r then f + 1 else if even f then f else f + 1)"

definition to_double :: "int \<Rightarrow> int \<Rightarrow> js_number" where
  "to_double n d =
     (if n = 0 then Finite 0
      else if (2 ^ 1024 - 2 ^ 970) * d \<le> n then PosInfinity
      else let e = max (- 1022) (floor_log2 n d)
           in Finite (of_int (round_half_even (scale2 (52 - e) n) (scale2 (e - 52) d))
                        * pow2 (e - 52)))"

fun negate :: "js_number \<Rightarrow> js_number" where
  "negate NaN = NaN"
| "negate NegInfinity = PosInfinity"
| "negate (Finite r) = Finite (- r)"
| "negate PosInfinity = NegInfinity"

text \<open>
  A plain decimal is an optional sign, digits, and optionally a point and digits.
  \<open>plain_decimal\<close> yields its sign and its value as numerator and denominator. A digit
  is significant when it is not 0, or has a digit other than 0 on both sides.
\<close>

definition digit_of :: "char \<Rightarrow> int option" where
  "digit_of c =
     (let n = (of_char c :: int) in if 48 \<le> n \<and> n \<le> 57 then Some (n - 48) else None)"

fun digits_value :: "int \<Rightarrow> string \<Rightarrow> int option" where
  "digits_value acc [] = Some acc"
| "digits_value acc (c # cs) =
     (case digit_of c of None \<Rightarrow> None | Some d \<Rightarrow> digits_value (10 * acc + d) cs)"

definition fraction_value :: "int \<Rightarrow> string \<Rightarrow> (int \<times> int) option" where
  "fraction_value i fp =
     (if fp = [] then None
      else case digits_value 0 fp of
             None \<Rightarrow> None
           | Some f \<Rightarrow> Some (i * 10 ^ length fp + f, 10 ^ length fp))"

definition unsigned_decimal :: "string \<Rightarrow> (int \<times> int) option" where
  "unsigned_decimal s =
     (let ip = takeWhile (\<lambda>c. c \<noteq> CHR ''.'') s;
          rest = dropWhile (\<lambda>c. c \<noteq> CHR ''.'') s
      in if ip = [] then None
         else case digits_value 0 ip of
                None \<Rightarrow> None
              | Some i \<Rightarrow> (case rest of [] \<Rightarrow> Some (i, 1) | _ # fp \<Rightarrow> fraction_value i fp))"

definition plain_decimal :: "string \<Rightarrow> (bool \<times> int \<times> int) option" where
  "plain_decimal s =
     (case s of
        [] \<Rightarrow> None
      | c # cs \<Rightarrow>
          if c = CHR ''-'' then map_option (Pair True) (unsigned_decimal cs)
          else if c = CHR ''+'' then map_option (Pair False) (unsigned_decimal cs)
          else map_option (Pair False) (unsigned_decimal s))"

definition significant_digits :: "string \<Rightarrow> nat" where
  "significant_digits s =
     length (dropWhile (\<lambda>c. c = CHR ''0'')
               (rev (dropWhile (\<lambda>c. c = CHR ''0'') (filter (\<lambda>c. digit_of c \<noteq> None) s))))"

text \<open>
  \<open>Number(text)\<close>: 0 for the empty text; for a plain decimal of at most 20 significant
  digits the double nearest to its value, with its sign; for every other text what the
  environment says (beyond 20 significant digits the language leaves the rounding to
  the implementation).
\<close>

definition Number_text :: "js_env \<Rightarrow> string \<Rightarrow> js_number" where
  "Number_text env s =
     (if s = [] then Finite 0
      else case plain_decimal s of
             None \<Rightarrow> Number_other env s
           | Some (neg, n, d) \<Rightarrow>
               if 20 < significant_digits s then Number_other env s
               else if neg then negate (to_double n d) else to_double n d)"

text \<open>
  A number field of the form holds either the number of the default values or the text
  the user typed. \<open>z.coerce.number()\<close> applies \<open>Number(...)\<close> to it.
\<close>

datatype field_input = Text string | Num js_number

definition Number_of :: "js_env \<Rightarrow> field_input \<Rightarrow> js_number" where
  "Number_of env v = (case v of Num x \<Rightarrow> x | Text s \<Rightarrow> Number_text env s)"

text \<open>\<open>x < 0\<close> and \<open>Number.isInteger(x)\<close> on numbers.\<close>

fun less_than_zero :: "js_number \<Rightarrow> bool" where
  "less_than_zero NaN = False"
| "less_than_zero NegInfinity = True"
| "less_than_zero (Finite r) = (r < 0)"
| "less_than_zero PosInfinity = False"

fun isInteger :: "js_number \<Rightarrow> bool" where
  "isInteger (Finite r) = (r = of_int \<lfloor>r\<rfloor>)"
| "isInteger _ = False"

subsection \<open>The schema\<close>

text \<open>
  \<open>productSchema\<close>, field by field: \<open>name\<close> a string of at least 2 characters;
  \<open>price\<close> coerced to a number that is at least 0; \<open>categoryId\<close> a string of at least
  1 character; \<open>description\<close>, \<open>brandId\<close> and \<open>sku\<close> optional strings; \<open>stock\<close>
  optional with default 0, else coerced to a number that is an integer and at least 0;
  \<open>inStock\<close>, \<open>status\<close>, \<open>isFeatured\<close> and \<open>images\<close> optional with the defaults
  \<open>true\<close>, \<open>'draft'\<close>, \<open>false\<close> and \<open>[]\<close>; a status must be one of the four
  names, an image must be a URL (\<open>isUrl\<close> of the environment). A number is any
  number but \<open>NaN\<close>: an infinity is one, is no integer, and is below 0 or not by its
  sign. The object schema reports the issues of all fields, in the order of the fields.
\<close>

datatype product_status = draft | active | archived | out_of_stock

definition status_of_text :: "string \<Rightarrow> product_status option" where
  "status_of_text s =
     (if s = ''draft'' then Some draft
      else if s = ''active'' then Some active
      else if s = ''archived'' then Some archived
      else if s = ''out_of_stock'' then Some out_of_stock
      else None)"

fun status_text :: "product_status \<Rightarrow> string" where
  "status_text draft = ''draft''"
| "status_text active = ''active''"
| "status_text archived = ''archived''"
| "status_text out_of_stock = ''out_of_stock''"

text \<open>The values the form holds when it is submitted, before the schema has seen them.\<close>

record ProductFormInput =
  in_name :: string
  in_description :: "string option"
  in_price :: field_input
  in_categoryId :: string
  in_brandId :: "string option"
  in_sku :: "string option"
  in_stock :: "field_input option"
  in_inStock :: "bool option"
  in_status :: "string option"
  in_isFeatured :: "bool option"
  in_images :: "string list option"

text \<open>\<open>ProductFormValues\<close>: what the schema yields, with its defaults filled in.\<close>

record ProductFormValues =
  v_name :: string
  v_description :: "string option"
  v_price :: js_number
  v_categoryId :: string
  v_brandId :: "string option"
  v_sku :: "string option"
  v_stock :: js_number
  v_inStock :: bool
  v_status :: product_status
  v_isFeatured :: bool
  v_images :: "string list"

text \<open>
  An issue names the field it is about. It carries the message the schema gives for the
  failed check; \<open>LibraryIssue\<close> is an issue whose message is the validation library's
  own (not a number, not an integer, not a value of the enumeration).
\<close>

datatype issue = Issue string string | LibraryIssue string

definition price_issues :: "js_env \<Rightarrow> field_input \<Rightarrow> issue list" where
  "price_issues env v =
     (let x = Number_of env v in
      if x = NaN then [LibraryIssue ''price'']
      else if less_than_zero x then [Issue ''price'' ''Price must be a positive number.'']
      else [])"

definition stock_issues :: "js_env \<Rightarrow> field_input option \<Rightarrow> issue list" where
  "stock_issues env v =
     (case v of
        None \<Rightarrow> []
      | Some input \<Rightarrow>
          (let x = Number_of env input in
           if x = NaN then [LibraryIssue ''stock'']
           else (if isInteger x then [] else [LibraryIssue ''stock''])
                @ (if less_than_zero x
                   then [Issue ''stock'' ''Stock must be a non-negative integer.'']
                   else [])))"

definition productSchema_issues :: "js_env \<Rightarrow> ProductFormInput \<Rightarrow> issue list" where
  "productSchema_issues env x =
     (if length (in_name x) < 2 then [Issue ''name'' ''Name must be at least 2 characters.''] else [])
     @ price_issues env (in_price x)
     @ (if length (in_categoryId x) < 1 then [Issue ''categoryId'' ''Category is required.''] else [])
     @ stock_issues env (in_stock x)
     @ (case in_status x of
          None \<Rightarrow> []
        | Some s \<Rightarrow> if status_of_text s = None then [LibraryIssue ''status''] else [])
     @ map (\<lambda>u. Issue ''images'' ''Each image must be a valid URL.'')
         (filter (\<lambda>u. \<not> isUrl env u) (case in_images x of None \<Rightarrow> [] | Some us \<Rightarrow> us))"

definition productSchema_values :: "js_env \<Rightarrow> ProductFormInput \<Rightarrow> ProductFormValues" where
  "productSchema_values env x =
     \<lparr> v_name = in_name x,
       v_description = in_description x,
       v_price = Number_of env (in_price x),
       v_categoryId = in_categoryId x,
       v_brandId = in_brandId x,
       v_sku = in_sku x,
       v_stock = (case in_stock x of None \<Rightarrow> Finite 0 | Some n \<Rightarrow> Number_of env n),
       v_inStock = (case in_inStock x of None \<Rightarrow> True | Some b \<Rightarrow> b),
       v_status = (case in_status x of
                     None \<Rightarrow> draft
                   | Some s \<Rightarrow> (case status_of_text s of Some t \<Rightarrow> t | None \<Rightarrow> draft)),
       v_isFeatured = (case in_isFeatured x of None \<Rightarrow> False | Some b \<Rightarrow> b),
       v_images = (case in_images x of None \<Rightarrow> [] | Some us \<Rightarrow> us) \<rparr>"

text \<open>
  \<open>productSchema.safeParse\<close>: the issues when there are any, otherwise the values.
\<close>

definition productSchema_parse :: "js_env \<Rightarrow> ProductFormInput \<Rightarrow> issue list + ProductFormValues" where
  "productSchema_parse env x =
     (if productSchema_issues env x = [] then Inr (productSchema_values env x)
      else Inl (productSchema_issues env x))"

text \<open>
  \<open>form.handleSubmit(onSubmit)\<close> with the schema as resolver: the submit handler runs
  on the parsed values, and does not run at all when the schema reports an issue.
\<close>

datatype 'a submission = Blocked "issue list" | Submitted 'a

definition handleSubmit ::
  "js_env \<Rightarrow> (ProductFormValues \<Rightarrow> 'a) \<Rightarrow> ProductFormInput \<Rightarrow> 'a submission" where
  "handleSubmit env onValid x =
     (case productSchema_parse env x of
        Inl issues \<Rightarrow> Blocked issues
      | Inr values \<Rightarrow> Submitted (onValid values))"

subsection \<open>The multipart payload of a new product\<close>

text \<open>
  \<open>Object.entries(productPayload)\<close>: the fields in the order of the schema. An optional
  field that was left out has the value \<open>undefined\<close>. No field holds \<open>null\<close> or an
  object other than the array of image URLs, so the \<open>JSON.stringify\<close> branch of the
  source is never taken on these values.
\<close>

datatype js_value =
    JUndefined
  | JString string
  | JNumber js_number
  | JBoolean bool
  | JArray "string list"

definition opt_string :: "string option \<Rightarrow> js_value" where
  "opt_string v = (case v of None \<Rightarrow> JUndefined | Some s \<Rightarrow> JString s)"

definition entries :: "ProductFormValues \<Rightarrow> (string \<times> js_value) list" where
  "entries values =
     [(''name'', JString (v_name values)),
      (''description'', opt_string (v_description values)),
      (''price'', JNumber (v_price values)),
      (''categoryId'', JString (v_categoryId values)),
      (''brandId'', opt_string (v_brandId values)),
      (''sku'', opt_string (v_sku values)),
      (''stock'', JNumber (v_stock values)),
      (''inStock'', JBoolean (v_inStock values)),
      (''status'', JString (status_text (v_status values))),
      (''isFeatured'', JBoolean (v_isFeatured values)),
      (''images'', JArray (v_images values))]"

text \<open>
  An entry of a \<open>FormData\<close> is a key with a text or a file. \<open>String(value)\<close> of a number
  is kept as \<open>FormNumber\<close>, the decimal text of that number.
\<close>

datatype js_file = File string

datatype form_value = FormText string | FormNumber js_number | FormFile js_file

type_synonym FormData = "(string \<times> form_value) list"

fun appendEntry :: "FormData \<Rightarrow> string \<times> js_value \<Rightarrow> FormData" where
  "appendEntry formData (key, val) =
     (if key = ''images'' then formData
      else case val of
             JUndefined \<Rightarrow> formData
           | JArray items \<Rightarrow> formData @ map (\<lambda>item. (key, FormText item)) items
           | JString s \<Rightarrow> formData @ [(key, FormText s)]
           | JNumber n \<Rightarrow> formData @ [(key, FormNumber n)]
           | JBoolean b \<Rightarrow> formData @ [(key, FormText (if b then ''true'' else ''false''))])"

definition createFormData :: "ProductFormValues \<Rightarrow> js_file list \<Rightarrow> FormData" where
  "createFormData productPayload files =
     foldl appendEntry [] (entries productPayload) @ map (\<lambda>f. (''files'', FormFile f)) files"

text \<open>\<open>formData.getAll(key)\<close>.\<close>

definition getAll :: "FormData \<Rightarrow> string \<Rightarrow> form_value list" where
  "getAll formData key = map snd (filter (\<lambda>e. fst e = key) formData)"

subsection \<open>Submitting the form\<close>

text \<open>
  Modelled from the spec: the type \<open>Product\<close> of \<open>@/types/ecommerce\<close>, with the fields
  of the specification's data model. The form reads only the id of the product it edits
  and whether there is one.
\<close>

record Product =
  product_id :: string
  product_name :: string
  product_description :: "string option"
  product_price :: rat
  product_categoryId :: string
  product_brandId :: "string option"
  product_sku :: "string option"
  product_stock :: rat
  product_inStock :: bool
  product_status :: product_status
  product_isFeatured :: bool
  product_images :: "string list"

datatype form_call =
    uploadFiles "js_file list"
  | updateProduct string ProductFormValues
  | createProduct FormData

record form_state =
  form_isLoading :: bool
  isUploading :: bool
  existingImageUrls :: "string list"
  newImageFiles :: "js_file list"

text \<open>
  The \<open>try\<close> block of \<open>onSubmit\<close> up to the response of the save request: \<open>Inl\<close> is
  the message of the error that was thrown, \<open>Inr\<close> the response. \<open>uploaded\<close> is the
  outcome of \<open>uploadFiles\<close>, \<open>saved\<close> that of \<open>updateProduct\<close> or \<open>createProduct\<close>;
  each is looked at only when the request is sent.
\<close>

definition saveUpdate ::
  "Product \<Rightarrow> form_state \<Rightarrow> ProductFormValues \<Rightarrow> string list \<Rightarrow> unit response outcome
     \<Rightarrow> (string option + unit response) \<times> form_call effect list" where
  "saveUpdate product st values uploadedNewUrls saved =
     (let productPayload = values\<lparr>v_images := existingImageUrls st @ uploadedNewUrls\<rparr> in
      (case saved of Resolves response \<Rightarrow> Inr response | Rejects m \<Rightarrow> Inl m,
       [ApiCall (updateProduct (product_id product) productPayload)]))"

definition trySave ::
  "Product option \<Rightarrow> form_state \<Rightarrow> ProductFormValues \<Rightarrow> string list response outcome
     \<Rightarrow> unit response outcome \<Rightarrow> (string option + unit response) \<times> form_call effect list" where
  "trySave initialData st values uploaded saved =
     (case initialData of
        Some product \<Rightarrow>
          if newImageFiles st \<noteq> [] then
            (case uploaded of
               Rejects m \<Rightarrow> (Inl m, [ApiCall (uploadFiles (newImageFiles st))])
             | Resolves uploadResponse \<Rightarrow>
                 (case rdata uploadResponse of
                    Some urls \<Rightarrow>
                      if rtype uploadResponse = OK then
                        (let (r, es) = saveUpdate product st values urls saved
                         in (r, ApiCall (uploadFiles (newImageFiles st)) # es))
                      else
                        (Inl (Some (or_else (rmessage uploadResponse) ''Failed to upload new images.'')),
                         [ApiCall (uploadFiles (newImageFiles st))])
                  | None \<Rightarrow>
                      (Inl (Some (or_else (rmessage uploadResponse) ''Failed to upload new images.'')),
                       [ApiCall (uploadFiles (newImageFiles st))])))
          else saveUpdate product st values [] saved
      | None \<Rightarrow>
          (case saved of Resolves response \<Rightarrow> Inr response | Rejects m \<Rightarrow> Inl m,
           [ApiCall (createProduct (createFormData values (newImageFiles st)))]))"

text \<open>
  The whole handler. Every path ends in the \<open>finally\<close> block, which clears both
  flags; nothing else of the form state is written.
\<close>

definition onSubmit ::
  "Product option \<Rightarrow> form_state \<Rightarrow> string list response outcome \<Rightarrow> unit response outcome
     \<Rightarrow> ProductFormValues \<Rightarrow> form_state \<times> form_call effect list" where
  "onSubmit initialData st uploaded saved values =
     (let (r, es) = trySave initialData st values uploaded saved;
          st' = st\<lparr>form_isLoading := False, isUploading := False\<rparr>
      in case r of
           Inr response \<Rightarrow>
             if rtype response = OK then
               (st', es @ [Toast ''Success''
                            (''Product '' @ (if initialData \<noteq> None then ''updated'' else ''created'')
                               @ '' successfully.'') Default,
                          RouterPush ''/products'', RouterRefresh])
             else
               (st', es @ [Toast ''Error'' (or_else (rmessage response) ''An error occurred.'')
                            Destructive])
         | Inl m \<Rightarrow>
             (st', es @ [Toast ''Error'' (or_else m ''An unexpected error occurred.'')
                          Destructive]))"

text \<open>The toasts of a run of a handler, in order.\<close>

fun toasts :: "'c effect list \<Rightarrow> (string \<times> string \<times> variant) list" where
  "toasts [] = []"
| "toasts (Toast t d v # es) = (t, d, v) # toasts es"
| "toasts (_ # es) = toasts es"

section \<open>Products page\<close>

text \<open>
  Modelled from the spec: the envelope of \<open>getProducts\<close> also carries
  \<open>pagination?: {totalPages, page, pageSize}\<close>. The page keeps the product rows, the
  pagination of the table and the pending delete.
\<close>

record pagination_info =
  totalPages :: int
  info_page :: int
  info_pageSize :: int

record 'a paged_response = "'a response" +
  rpagination :: "pagination_info option"

record pagination_state =
  pageIndex :: int
  pageSize :: int
  pageCount :: int

record page_state =
  products :: "Product list"
  page_isLoading :: bool
  pagination :: pagination_state
  isConfirmDeleteDialogOpen :: bool
  itemToDeleteId :: "string option"

datatype page_call =
    getProducts int int
  | deleteProduct string

text \<open>
  \<open>fetchData\<close> of the page, again split at its \<open>await\<close>. The request is built from the
  pagination the page holds when the fetch starts; \<open>setPagination(prev => ...)\<close> updates
  the pagination the page holds when the response has arrived.
\<close>

definition page_fetchData_start :: "page_state \<Rightarrow> page_state \<times> page_call effect list" where
  "page_fetchData_start st =
     (st\<lparr>page_isLoading := True\<rparr>,
      [ApiCall (getProducts (pageIndex (pagination st) + 1) (pageSize (pagination st)))])"

definition page_fetchData_finish ::
  "Product list paged_response outcome \<Rightarrow> page_state \<Rightarrow> page_state \<times> page_call effect list" where
  "page_fetchData_finish fetched st =
     (case fetched of
        Resolves response \<Rightarrow>
          if rtype response = OK \<and> rdata response \<noteq> None then
            (let st1 = st\<lparr>products := the (rdata response)\<rparr>;
                 st2 = (case rpagination response of
                          Some p \<Rightarrow> st1\<lparr>pagination := (pagination st1)\<lparr>pageCount := totalPages p\<rparr>\<rparr>
                        | None \<Rightarrow> st1)
             in (st2\<lparr>page_isLoading := False\<rparr>, []))
          else
            (st\<lparr>page_isLoading := False\<rparr>,
             [Toast ''Error'' (or_else (rmessage response) ''Failed to fetch products.'')
                Destructive])
      | Rejects _ \<Rightarrow>
          (st\<lparr>page_isLoading := False\<rparr>,
           [Toast ''Error'' ''An error occurred while fetching products.'' Destructive]))"

definition page_fetchData ::
  "Product list paged_response outcome \<Rightarrow> page_state \<Rightarrow> page_state \<times> page_call effect list" where
  "page_fetchData fetched st =
     (let (st1, e1) = page_fetchData_start st;
          (st2, e2) = page_fetchData_finish fetched st1
      in (st2, e1 @ e2))"

text \<open>
  Confirming the delete dialog. An id that is \<open>null\<close> or empty ends the handler at once.
  On success the reload is started and not awaited, so the \<open>finally\<close> block runs before
  the reload continues.
\<close>

definition handleConfirmDelete ::
  "page_state \<Rightarrow> unit response outcome \<Rightarrow> Product list paged_response outcome
     \<Rightarrow> page_state \<times> page_call effect list" where
  "handleConfirmDelete st deleted fetched =
     (case itemToDeleteId st of
        None \<Rightarrow> (st, [])
      | Some itemId \<Rightarrow>
          if itemId = [] then (st, [])
          else
            let st1 = st\<lparr>page_isLoading := True\<rparr>;
                call = ApiCall (deleteProduct itemId);
                finally = (\<lambda>s. s\<lparr>page_isLoading := False, isConfirmDeleteDialogOpen := False,
                                  itemToDeleteId := None\<rparr>)
            in (case deleted of
                 Resolves response \<Rightarrow>
                   if rtype response = OK then
                     (let (st2, e2) = page_fetchData_start st1;
                          st3 = finally st2;
                          (st4, e4) = page_fetchData_finish fetched st3
                      in (st4,
                          [call, Toast ''Success'' ''Product deleted successfully.'' Default]
                          @ e2 @ e4))
                   else
                     (finally st1,
                      [call,
                       Toast ''Error'' (or_else (rmessage response) ''Failed to delete product.'')
                         Destructive])
               | Rejects _ \<Rightarrow>
                   (finally st1, [call, Toast ''Error'' ''An error occurred.'' Destructive])))"

section \<open>Example inputs\<close>

text \<open>
  An environment for the examples. It lower-cases the ASCII capitals, which is what
  \<open>toLowerCase\<close> does on the ASCII colours used here; it takes every text for a URL
  and no text outside the computed ones for a number, which the examples never ask.
\<close>

definition ascii_lower :: "char \<Rightarrow> char" where
  "ascii_lower c =
     (let n = (of_char c :: nat) in if 65 \<le> n \<and> n \<le> 90 then char_of (n + 32) else c)"

definition example_env :: js_env where
  "example_env =
     \<lparr>toLowerCase = map ascii_lower, Number_other = (\<lambda>s. NaN), isUrl = (\<lambda>u. True)\<rparr>"

text \<open>
  One sku and size in two colours: red is sold out, blue is in stock.
\<close>

definition example_inventory :: "SoftInventoryItem list" where
  "example_inventory =
     [\<lparr>si_sku = ''A1'', si_size = ''M'', si_color = Some ''red'', si_quantity = 0\<rparr>,
      \<lparr>si_sku = ''A1'', si_size = ''M'', si_color = Some ''Blue'', si_quantity = 5\<rparr>]"

definition order_red :: BrandDailyOrderItem where
  "order_red = \<lparr>order_id = ''o1'', order_sku = ''A1'', order_color = Some ''Red'',
                order_size = ''M'', order_quantity = 2\<rparr>"

definition order_blue :: BrandDailyOrderItem where
  "order_blue = \<lparr>order_id = ''o2'', order_sku = ''A1'', order_color = Some ''BLUE'',
                 order_size = ''M'', order_quantity = 1\<rparr>"

definition example_rows :: "row list" where
  "example_rows = [\<lparr>row_id = ''0'', original = order_red\<rparr>,
                   \<lparr>row_id = ''1'', original = order_blue\<rparr>]"

definition example_props :: tab_props where
  "example_props = \<lparr>prop_brandId = ''b1'', prop_brandName = ''Acme'', prop_today = ''2024-05-01''\<rparr>"

definition example_tab :: "RowSelectionState \<Rightarrow> tab_state" where
  "example_tab sel =
     \<lparr>dailyOrders = [order_red, order_blue], softInventory = example_inventory,
      tab_isLoading = False, isSubmitting = False, rowSelection = sel\<rparr>"

text \<open>
  The values of an untouched create form, a form with two files picked, an edited
  product with one retained image and one new file, and a products page.
\<close>

definition example_form :: ProductFormInput where
  "example_form =
     \<lparr>in_name = [], in_description = Some [], in_price = Num (Finite 0), in_categoryId = [],
      in_brandId = None, in_sku = Some [], in_stock = Some (Num (Finite 0)), in_inStock = Some True,
      in_status = Some ''draft'', in_isFeatured = Some False, in_images = Some []\<rparr>"

definition example_form_state :: form_state where
  "example_form_state =
     \<lparr>form_isLoading = False, isUploading = False, existingImageUrls = [],
      newImageFiles = [File ''front.png'', File ''back.png'']\<rparr>"

definition example_values :: ProductFormValues where
  "example_values =
     \<lparr>v_name = ''Shirt'', v_description = None, v_price = Finite 10, v_categoryId = ''c1'',
      v_brandId = None, v_sku = None, v_stock = Finite 3, v_inStock = True, v_status = active,
      v_isFeatured = False, v_images = [''https://cdn/old.png'']\<rparr>"

definition example_product :: Product where
  "example_product =
     \<lparr>product_id = ''p1'', product_name = ''Shirt'', product_description = None,
      product_price = 10, product_categoryId = ''c1'', product_brandId = None,
      product_sku = None, product_stock = 3, product_inStock = True, product_status = active,
      product_isFeatured = False, product_images = [''https://cdn/old.png'']\<rparr>"

definition example_edit_state :: form_state where
  "example_edit_state =
     \<lparr>form_isLoading = False, isUploading = False, existingImageUrls = [''https://cdn/old.png''],
      newImageFiles = [File ''new.png'']\<rparr>"

definition example_page :: page_state where
  "example_page =
     \<lparr>products = [example_product], page_isLoading = False,
      pagination = \<lparr>pageIndex = 2, pageSize = 10, pageCount = 1\<rparr>,
      isConfirmDeleteDialogOpen = True, itemToDeleteId = Some ''p1''\<rparr>"

definition ok_response :: "unit response" where
  "ok_response = \<lparr>rtype = OK, rdata = None, rmessage = None\<rparr>"

definition error_response :: "unit response" where
  "error_response = \<lparr>rtype = ERROR, rdata = None, rmessage = Some ''Not allowed''\<rparr>"

section \<open>Stock lookup: results\<close>

text \<open>
  Whenever the lookup answers true, some entry of the snapshot has the line's sku and
  size, matches its colour, and has a positive quantity.
\<close>

lemma lineMatches_iff:
  "lineMatches env sku sz color si \<longleftrightarrow>
     si_sku si = sku \<and> si_size si = sz
     \<and> (\<forall>c. color = Some c \<and> c \<noteq> [] \<longrightarrow>
           (\<exists>sc. si_color si = Some sc \<and> toLowerCase env sc = toLowerCase env c))"
  by (auto simp: lineMatches_def split: option.splits)

lemma checkSoftStock_true_has_entry:
  assumes "checkSoftStock env sku sz color inventory"
  shows "\<exists>si \<in> set inventory.
           si_sku si = sku \<and> si_size si = sz
           \<and> (\<forall>c. color = Some c \<and> c \<noteq> [] \<longrightarrow>
                 (\<exists>sc. si_color si = Some sc \<and> toLowerCase env sc = toLowerCase env c))
           \<and> 0 < si_quantity si"
proof (cases "find (lineMatches env sku sz color) inventory")
  case None
  with assms show ?thesis
    by (simp add: checkSoftStock_def)
next
  case (Some item)
  then have "item \<in> set inventory" and m: "lineMatches env sku sz color item"
    by (auto simp: find_Some_iff)
  moreover from assms Some have "0 < si_quantity item"
    by (simp add: checkSoftStock_def)
  moreover note m [unfolded lineMatches_iff]
  ultimately show ?thesis
    by blast
qed

text \<open>
  C1. The lookup does not answer true whenever a matching entry with a positive quantity
  exists. The snapshot \<open>example_inventory\<close> holds sku A1, size M twice: red with
  quantity 0, then Blue with quantity 5. For a line A1, M without colour both entries
  match and the second is in stock, as the specification's wording of the lookup
  confirms; \<open>checkSoftStock\<close> answers false, because \<open>find\<close> hands it the red entry.
  On the same two entries in the other order it answers true.
\<close>

theorem checkSoftStock_first_entry_decides:
  "checkSoftStock env ''A1'' ''M'' None example_inventory = False
   \<and> spec_checkSoftStock env ''A1'' ''M'' None example_inventory = True
   \<and> checkSoftStock env ''A1'' ''M'' None (rev example_inventory) = True"
  by (simp add: checkSoftStock_def spec_checkSoftStock_def lineMatches_def example_inventory_def)

section \<open>Selection and submission of daily orders: results\<close>


lemma foldl_upd_True:
  "foldl (\<lambda>m i. m(i \<mapsto> True)) m0 ids k =
     (if k \<in> set ids then Some True else m0 k)"
  by (induction ids arbitrary: m0) auto

lemma selectAll_dom:
  "dom (selectAll_onCheckedChange env inventory rows v)
     \<subseteq> row_id ` {r \<in> set rows. \<not> orderInStock env inventory (original r)}"
  by (auto simp: selectAll_onCheckedChange_def outOfStockRowIds_def foldl_upd_True dom_def
           split: if_splits)

lemma in_stock_row_not_listed:
  assumes d: "distinct (map row_id rows)" and r: "r \<in> set rows"
      and s: "orderInStock env inventory (original r)"
  shows "row_id r \<notin> set (outOfStockRowIds env inventory rows)"
proof
  assume "row_id r \<in> set (outOfStockRowIds env inventory rows)"
  then obtain r' where r': "r' \<in> set rows" "\<not> orderInStock env inventory (original r')"
      "row_id r' = row_id r"
    by (auto simp: outOfStockRowIds_def)
  with d r have "r' = r"
    by (meson distinct_map inj_onD)
  with r' s show False by simp
qed

text \<open>
  C2. The selection the header checkbox hands to the table has keys only among the ids of
  rows whose stock lookup is false. Row ids being distinct, as the table makes them, a
  row whose lookup is true is never a key of it, whatever the checkbox reports. When
  the checkbox reports unchecked the selection is empty.
\<close>

theorem selectAll_selects_only_out_of_stock:
  "dom (selectAll_onCheckedChange env inventory rows v)
     \<subseteq> row_id ` {r \<in> set rows. \<not> orderInStock env inventory (original r)}
   \<and> (distinct (map row_id rows) \<longrightarrow>
        (\<forall>r \<in> set rows. orderInStock env inventory (original r) \<longrightarrow>
           selectAll_onCheckedChange env inventory rows v (row_id r) = None))
   \<and> selectAll_onCheckedChange env inventory rows (Checked False) = Map.empty"
proof (intro conjI impI ballI)
  show "dom (selectAll_onCheckedChange env inventory rows v)
     \<subseteq> row_id ` {r \<in> set rows. \<not> orderInStock env inventory (original r)}"
    by (rule selectAll_dom)
next
  fix r
  assume "distinct (map row_id rows)" "r \<in> set rows" "orderInStock env inventory (original r)"
  then have "row_id r \<notin> set (outOfStockRowIds env inventory rows)"
    by (rule in_stock_row_not_listed)
  then show "selectAll_onCheckedChange env inventory rows v (row_id r) = None"
    by (simp add: selectAll_onCheckedChange_def foldl_upd_True)
next
  show "selectAll_onCheckedChange env inventory rows (Checked False) = Map.empty"
    by (simp add: selectAll_onCheckedChange_def)
qed

theorem selectAll_selects_only_out_of_stock_witness:
  "distinct (map row_id example_rows)
   \<and> orderInStock example_env example_inventory order_blue
   \<and> selectAll_onCheckedChange example_env example_inventory example_rows (Checked True) ''1'' = None
   \<and> selectAll_onCheckedChange example_env example_inventory example_rows (Checked True) ''0'' = Some True"
proof -
  have d: "distinct (map row_id example_rows)"
    by (simp add: example_rows_def)
  have b: "orderInStock example_env example_inventory order_blue"
    by code_simp
  have m: "\<lparr>row_id = ''1'', original = order_blue\<rparr> \<in> set example_rows"
    by (simp add: example_rows_def)
  have s: "selectAll_onCheckedChange example_env example_inventory example_rows (Checked True) ''0'' = Some True"
    by code_simp
  from selectAll_selects_only_out_of_stock [of example_env example_inventory example_rows "Checked True"] d b m
  have "selectAll_onCheckedChange example_env example_inventory example_rows (Checked True) ''1'' = None"
    by fastforce
  with d b s show ?thesis by simp
qed

lemma ordersToSubmit_empty_iff:
  "ordersToSubmit st = [] \<longleftrightarrow>
     (\<forall>order \<in> set (dailyOrders st). rowSelection st (order_id order) \<noteq> Some True)"
  by (auto simp: ordersToSubmit_def isSelectedId_def filter_empty_conv)

lemma set_actualOutOfStockOrders:
  "set (actualOutOfStockOrders env st) =
     {order \<in> set (dailyOrders st).
        rowSelection st (order_id order) = Some True \<and> \<not> orderInStock env (softInventory st) order}"
  by (auto simp: actualOutOfStockOrders_def ordersToSubmit_def isSelectedId_def)

lemma apiCalls_append: "apiCalls (xs @ ys) = apiCalls xs @ apiCalls ys"
  by (induction xs rule: apiCalls.induct) auto

lemma submittedIds_append: "submittedIds (xs @ ys) = submittedIds xs @ submittedIds ys"
  by (induction xs rule: submittedIds.induct) auto

lemma tab_fetchData_start_calls:
  "submittedIds (apiCalls (snd (tab_fetchData_start props st))) = []"
  by (simp add: tab_fetchData_start_def)

lemma tab_fetchData_finish_calls:
  "apiCalls (snd (tab_fetchData_finish settled st)) = []"
  by (auto simp: tab_fetchData_finish_def Let_def
           split: outcome.splits option.splits prod.splits)

text \<open>
  The handler sends at most one request, and only when some selected order is out of
  stock: the ids of the selected orders that the lookup reports out of stock.
\<close>

lemma handleSubmitSelected_submittedIds:
  "submittedIds (apiCalls (snd (handleSubmitSelected env props st submitted reloaded))) =
     (if actualOutOfStockOrders env st = [] then []
      else [map order_id (actualOutOfStockOrders env st)])"
proof -
  have a: "actualOutOfStockOrders env st = []" if "ordersToSubmit st = []"
    using that by (simp add: actualOutOfStockOrders_def)
  obtain s3 e3 where f3:
    "tab_fetchData_start props (st\<lparr>isSubmitting := True, rowSelection := Map.empty\<rparr>) = (s3, e3)"
    by fastforce
  obtain s5 e5 where f5: "tab_fetchData_finish reloaded (s3\<lparr>isSubmitting := False\<rparr>) = (s5, e5)"
    by fastforce
  have e3: "submittedIds (apiCalls e3) = []"
    using tab_fetchData_start_calls [of props "st\<lparr>isSubmitting := True, rowSelection := Map.empty\<rparr>"] f3
    by simp
  have e5: "apiCalls e5 = []"
    using tab_fetchData_finish_calls [of reloaded "s3\<lparr>isSubmitting := False\<rparr>"] f5
    by simp
  show ?thesis
    using a f3 f5 e3 e5
    by (auto simp: handleSubmitSelected_def Let_def apiCalls_append submittedIds_append
             split: outcome.splits)
qed

text \<open>
  C3. When no order of the daily-orders list has its id selected, the handler shows the
  "No Orders Selected" notice and does nothing else: it sends no request at all, so
  \<open>submitBrandOrdersToPlaced\<close> is not called, and it leaves the state as it was, with
  the submitting flag cleared.
\<close>

theorem handleSubmitSelected_none_selected:
  assumes "\<forall>order \<in> set (dailyOrders st). rowSelection st (order_id order) \<noteq> Some True"
  shows "handleSubmitSelected env props st submitted reloaded =
           (st\<lparr>isSubmitting := False\<rparr>,
            [Toast ''No Orders Selected'' ''Please select out-of-stock orders to submit.'' Default])
         \<and> apiCalls (snd (handleSubmitSelected env props st submitted reloaded)) = []"
proof -
  from assms have "ordersToSubmit st = []"
    by (simp add: ordersToSubmit_empty_iff)
  then show ?thesis
    by (simp add: handleSubmitSelected_def)
qed

theorem handleSubmitSelected_none_selected_witness:
  "ordersToSubmit (example_tab [''zz'' \<mapsto> True]) = []
   \<and> handleSubmitSelected example_env example_props (example_tab [''zz'' \<mapsto> True])
        (Resolves ok_response) (Rejects None) =
       ((example_tab [''zz'' \<mapsto> True])\<lparr>isSubmitting := False\<rparr>,
        [Toast ''No Orders Selected'' ''Please select out-of-stock orders to submit.'' Default])
   \<and> apiCalls (snd (handleSubmitSelected example_env example_props (example_tab [''zz'' \<mapsto> True])
                       (Resolves ok_response) (Rejects None))) = []"
proof -
  have h: "\<forall>order \<in> set (dailyOrders (example_tab [''zz'' \<mapsto> True])).
       rowSelection (example_tab [''zz'' \<mapsto> True]) (order_id order) \<noteq> Some True"
    by (simp add: example_tab_def order_red_def order_blue_def)
  then have "ordersToSubmit (example_tab [''zz'' \<mapsto> True]) = []"
    by (simp add: ordersToSubmit_empty_iff)
  with handleSubmitSelected_none_selected
         [OF h, of example_env example_props "Resolves ok_response" "Rejects None"]
  show ?thesis
    by simp
qed

text \<open>
  C9. Every id list the handler passes to \<open>submitBrandOrdersToPlaced\<close> is non-empty and
  holds only ids of selected orders of the list whose stock lookup against the current
  snapshot is false; order ids being distinct, no order that the snapshot reports in
  stock has its id in it. At most one such call is made. When at least one order is
  selected and every selected order is in stock, the handler clears the selection,
  shows the "No Out-of-Stock Orders" notice and sends no request.
\<close>

theorem handleSubmitSelected_submits_only_out_of_stock:
  "(\<forall>ids \<in> set (submittedIds (apiCalls (snd (handleSubmitSelected env props st submitted reloaded)))).
      ids \<noteq> []
      \<and> (\<forall>i \<in> set ids. \<exists>order \<in> set (dailyOrders st).
             order_id order = i \<and> rowSelection st i = Some True
             \<and> \<not> orderInStock env (softInventory st) order)
      \<and> (distinct (map order_id (dailyOrders st)) \<longrightarrow>
           (\<forall>order \<in> set (dailyOrders st).
              orderInStock env (softInventory st) order \<longrightarrow> order_id order \<notin> set ids)))
   \<and> length (submittedIds (apiCalls (snd (handleSubmitSelected env props st submitted reloaded)))) \<le> 1
   \<and> ((\<exists>order \<in> set (dailyOrders st). rowSelection st (order_id order) = Some True)
        \<and> (\<forall>order \<in> set (dailyOrders st).
              rowSelection st (order_id order) = Some True \<longrightarrow> orderInStock env (softInventory st) order)
      \<longrightarrow> handleSubmitSelected env props st submitted reloaded =
            (st\<lparr>isSubmitting := False, rowSelection := Map.empty\<rparr>,
             [Toast ''No Out-of-Stock Orders''
                ''All selected orders appear to be in stock. No action taken.'' Default]))"
proof (intro conjI ballI impI)
  fix ids
  assume "ids \<in> set (submittedIds (apiCalls (snd (handleSubmitSelected env props st submitted reloaded))))"
  then have ne: "actualOutOfStockOrders env st \<noteq> []"
    and ids: "ids = map order_id (actualOutOfStockOrders env st)"
    by (auto simp: handleSubmitSelected_submittedIds split: if_splits)
  from ne ids show "ids \<noteq> []" by simp
  {
    fix i assume "i \<in> set ids"
    with ids obtain order where "order \<in> set (actualOutOfStockOrders env st)" "order_id order = i"
      by auto
    then show "\<exists>order \<in> set (dailyOrders st).
             order_id order = i \<and> rowSelection st i = Some True
             \<and> \<not> orderInStock env (softInventory st) order"
      by (auto simp: set_actualOutOfStockOrders)
  }
  {
    fix order
    assume d: "distinct (map order_id (dailyOrders st))" and o: "order \<in> set (dailyOrders st)"
      and s: "orderInStock env (softInventory st) order"
    show "order_id order \<notin> set ids"
    proof
      assume "order_id order \<in> set ids"
      with ids obtain order' where o': "order' \<in> set (actualOutOfStockOrders env st)"
          "order_id order' = order_id order"
        by auto
      then have "order' \<in> set (dailyOrders st)" "\<not> orderInStock env (softInventory st) order'"
        by (auto simp: set_actualOutOfStockOrders)
      moreover from this d o o'(2) have "order' = order"
        by (meson distinct_map inj_onD)
      ultimately show False using s by simp
    qed
  }
next
  show "length (submittedIds (apiCalls (snd (handleSubmitSelected env props st submitted reloaded)))) \<le> 1"
    by (simp add: handleSubmitSelected_submittedIds)
next
  assume h: "(\<exists>order \<in> set (dailyOrders st). rowSelection st (order_id order) = Some True)
        \<and> (\<forall>order \<in> set (dailyOrders st).
              rowSelection st (order_id order) = Some True \<longrightarrow> orderInStock env (softInventory st) order)"
  then have "ordersToSubmit st \<noteq> []"
    by (simp add: ordersToSubmit_empty_iff)
  moreover from h have "set (actualOutOfStockOrders env st) = {}"
    unfolding set_actualOutOfStockOrders by blast
  then have "actualOutOfStockOrders env st = []"
    by simp
  ultimately show "handleSubmitSelected env props st submitted reloaded =
            (st\<lparr>isSubmitting := False, rowSelection := Map.empty\<rparr>,
             [Toast ''No Out-of-Stock Orders''
                ''All selected orders appear to be in stock. No action taken.'' Default])"
    by (simp add: handleSubmitSelected_def)
qed

theorem handleSubmitSelected_submits_only_out_of_stock_witness:
  "submittedIds (apiCalls (snd (handleSubmitSelected example_env example_props
        (example_tab [''o1'' \<mapsto> True, ''o2'' \<mapsto> True])
        (Resolves ok_response) (Rejects None)))) = [[''o1'']]
   \<and> distinct (map order_id (dailyOrders (example_tab [''o1'' \<mapsto> True, ''o2'' \<mapsto> True])))
   \<and> orderInStock example_env (softInventory (example_tab [''o1'' \<mapsto> True, ''o2'' \<mapsto> True])) order_blue
   \<and> order_id order_blue \<notin> set [''o1'']
   \<and> handleSubmitSelected example_env example_props (example_tab [''o2'' \<mapsto> True])
        (Resolves ok_response) (Rejects None) =
        ((example_tab [''o2'' \<mapsto> True])\<lparr>isSubmitting := False, rowSelection := Map.empty\<rparr>,
         [Toast ''No Out-of-Stock Orders''
            ''All selected orders appear to be in stock. No action taken.'' Default])"
proof -
  let ?both = "example_tab [''o1'' \<mapsto> True, ''o2'' \<mapsto> True]"
  let ?blue = "example_tab [''o2'' \<mapsto> True]"
  let ?ok = "Resolves ok_response"
  have e: "submittedIds (apiCalls (snd (handleSubmitSelected example_env example_props ?both ?ok (Rejects None))))
             = [[''o1'']]"
    by code_simp
  have d: "distinct (map order_id (dailyOrders ?both))"
    by (simp add: example_tab_def order_red_def order_blue_def)
  have m: "order_blue \<in> set (dailyOrders ?both)"
    by (simp add: example_tab_def)
  have s: "orderInStock example_env (softInventory ?both) order_blue"
    by code_simp
  have n: "order_id order_blue \<notin> set [''o1'']"
    using handleSubmitSelected_submits_only_out_of_stock
            [of example_env example_props ?both ?ok "Rejects None"] e d m s
    by fastforce
  have sel: "\<exists>order \<in> set (dailyOrders ?blue). rowSelection ?blue (order_id order) = Some True"
    by (simp add: example_tab_def order_red_def order_blue_def)
  have s': "orderInStock example_env (softInventory ?blue) order_blue"
    by code_simp
  have all: "\<forall>order \<in> set (dailyOrders ?blue).
               rowSelection ?blue (order_id order) = Some True \<longrightarrow> orderInStock example_env (softInventory ?blue) order"
    using s' by (simp add: example_tab_def order_red_def order_blue_def)
  have c: "handleSubmitSelected example_env example_props ?blue ?ok (Rejects None) =
        (?blue\<lparr>isSubmitting := False, rowSelection := Map.empty\<rparr>,
         [Toast ''No Out-of-Stock Orders''
            ''All selected orders appear to be in stock. No action taken.'' Default])"
    using handleSubmitSelected_submits_only_out_of_stock
            [of example_env example_props ?blue ?ok "Rejects None"] sel all
    by blast
  from e d s n c show ?thesis
    by blast
qed

section \<open>Product form: results\<close>

lemma getAll_append: "getAll (xs @ ys) k = getAll xs k @ getAll ys k"
  by (simp add: getAll_def)

lemma getAll_files:
  "getAll (map (\<lambda>f. (''files'', FormFile f)) files) k =
     (if k = ''files'' then map FormFile files else [])"
  by (induction files) (auto simp: getAll_def)

lemma getAll_appendEntry_other:
  "k \<noteq> fst e \<Longrightarrow> getAll (appendEntry fd e) k = getAll fd k"
  by (cases e) (auto simp: getAll_def split: js_value.splits)

lemma getAll_appendEntry_images:
  "getAll (appendEntry fd e) ''images'' = getAll fd ''images''"
  by (cases e) (auto simp: getAll_def split: js_value.splits)

lemma getAll_foldl_other:
  "k \<notin> fst ` set es \<Longrightarrow> getAll (foldl appendEntry fd es) k = getAll fd k"
  by (induction es arbitrary: fd) (simp_all add: getAll_appendEntry_other)

lemma getAll_foldl_images:
  "getAll (foldl appendEntry fd es) ''images'' = getAll fd ''images''"
  by (induction es arbitrary: fd) (simp_all add: getAll_appendEntry_images)

lemma entries_keys:
  "map fst (entries values) =
     [''name'', ''description'', ''price'', ''categoryId'', ''brandId'', ''sku'', ''stock'',
      ''inStock'', ''status'', ''isFeatured'', ''images'']"
  by (simp add: entries_def)

lemma getAll_fields_files: "getAll (foldl appendEntry [] (entries values)) ''files'' = []"
proof -
  have "''files'' \<notin> set (map fst (entries values))"
    unfolding entries_keys by simp
  then have "''files'' \<notin> fst ` set (entries values)" by simp
  then have "getAll (foldl appendEntry [] (entries values)) ''files'' = getAll [] ''files''"
    by (rule getAll_foldl_other)
  then show ?thesis
    by (simp add: getAll_def)
qed

lemma getAll_fields_images: "getAll (foldl appendEntry [] (entries values)) ''images'' = []"
  unfolding getAll_foldl_images by (simp add: getAll_def)

lemma getAll_fields_brandId:
  "v_brandId values = None \<Longrightarrow> getAll (foldl appendEntry [] (entries values)) ''brandId'' = []"
  by (simp add: entries_def getAll_def opt_string_def split: option.split)

lemma onSubmit_create_calls:
  "apiCalls (snd (onSubmit None st uploaded saved values)) =
     [createProduct (createFormData values (newImageFiles st))]"
  by (simp add: onSubmit_def trySave_def Let_def apiCalls_append
           split: outcome.splits sum.splits prod.splits)

text \<open>
  C4. Creating a product (no initial data) with exactly two files picked and no existing
  image: the handler sends one request, \<open>createProduct\<close>, whose form data holds under
  \<open>files\<close> exactly the two files, in order, and nothing under \<open>images\<close>.
\<close>

theorem onSubmit_create_two_files:
  assumes "length (newImageFiles st) = 2" and "existingImageUrls st = []"
  shows "\<exists>formData.
           apiCalls (snd (onSubmit None st uploaded saved values)) = [createProduct formData]
           \<and> getAll formData ''files'' = map FormFile (newImageFiles st)
           \<and> length (getAll formData ''files'') = 2
           \<and> getAll formData ''images'' = []"
  using assms
  by (simp add: onSubmit_create_calls createFormData_def getAll_append getAll_files
        getAll_fields_files getAll_fields_images)

theorem onSubmit_create_two_files_witness:
  "length (newImageFiles example_form_state) = 2 \<and> existingImageUrls example_form_state = []
   \<and> (\<exists>formData.
         apiCalls (snd (onSubmit None example_form_state (Rejects None) (Resolves ok_response)
                          example_values)) = [createProduct formData]
         \<and> getAll formData ''files'' = [FormFile (File ''front.png''), FormFile (File ''back.png'')]
         \<and> getAll formData ''images'' = [])"
proof -
  have l: "length (newImageFiles example_form_state) = 2"
    and e: "existingImageUrls example_form_state = []"
    and f: "newImageFiles example_form_state = [File ''front.png'', File ''back.png'']"
    by (simp_all add: example_form_state_def)
  from onSubmit_create_two_files [OF l e, of "Rejects None" "Resolves ok_response" example_values]
  show ?thesis
    using l e f by auto
qed

text \<open>
  C5. Updating a product: when new files were picked and their upload resolves with type
  OK and a URL list, the one payload handed to \<open>updateProduct\<close> has as images the
  retained existing URLs, in their order, followed by the uploaded URLs in the order
  the upload returned them, and is otherwise the submitted values. Without new
  files the images are the retained existing URLs.
\<close>

theorem onSubmit_update_images:
  "(newImageFiles st \<noteq> [] \<and> uploaded = Resolves r \<and> rtype r = OK \<and> rdata r = Some urls
      \<longrightarrow> apiCalls (snd (onSubmit (Some product) st uploaded saved values)) =
            [uploadFiles (newImageFiles st),
             updateProduct (product_id product)
               (values\<lparr>v_images := existingImageUrls st @ urls\<rparr>)])
   \<and> (newImageFiles st = []
      \<longrightarrow> apiCalls (snd (onSubmit (Some product) st uploaded saved values)) =
            [updateProduct (product_id product) (values\<lparr>v_images := existingImageUrls st\<rparr>)])"
  by (simp add: onSubmit_def trySave_def saveUpdate_def Let_def apiCalls_append
           split: outcome.splits sum.splits prod.splits)

theorem onSubmit_update_images_witness:
  "newImageFiles example_edit_state \<noteq> []
   \<and> apiCalls (snd (onSubmit (Some example_product) example_edit_state
          (Resolves \<lparr>rtype = OK, rdata = Some [''https://cdn/n1.png'', ''https://cdn/n2.png''],
                     rmessage = None\<rparr>)
          (Resolves ok_response) example_values)) =
       [uploadFiles [File ''new.png''],
        updateProduct ''p1''
          (example_values\<lparr>v_images :=
             [''https://cdn/old.png'', ''https://cdn/n1.png'', ''https://cdn/n2.png'']\<rparr>)]"
proof -
  have n: "newImageFiles example_edit_state \<noteq> []"
    by (simp add: example_edit_state_def)
  from onSubmit_update_images
         [of example_edit_state
             "Resolves \<lparr>rtype = OK, rdata = Some [''https://cdn/n1.png'', ''https://cdn/n2.png''],
                        rmessage = None\<rparr>"
             "\<lparr>rtype = OK, rdata = Some [''https://cdn/n1.png'', ''https://cdn/n2.png''],
               rmessage = None\<rparr>"
             "[''https://cdn/n1.png'', ''https://cdn/n2.png'']"
             example_product "Resolves ok_response" example_values] n
  show ?thesis
    by (simp add: example_edit_state_def example_product_def)
qed

lemma or_else_nonempty: "d \<noteq> [] \<Longrightarrow> or_else (Some (or_else m d)) d' = or_else m d"
  by (simp add: or_else_def split: option.splits)

text \<open>
  C10. Updating a product with at least one new file: when \<open>uploadFiles\<close> resolves with a
  type other than OK, or without URLs, the handler sends nothing after the upload
  request (so \<open>updateProduct\<close> is not called), shows one error toast with the
  response's message or "Failed to upload new images.", does not navigate, and leaves
  the picked files and the retained URLs as they were, with both busy flags cleared.
\<close>

theorem onSubmit_update_upload_failed:
  assumes "newImageFiles st \<noteq> []" and "uploaded = Resolves r"
      and "rtype r \<noteq> OK \<or> rdata r = None"
  shows "onSubmit (Some product) st uploaded saved values =
           (st\<lparr>form_isLoading := False, isUploading := False\<rparr>,
            [ApiCall (uploadFiles (newImageFiles st)),
             Toast ''Error'' (or_else (rmessage r) ''Failed to upload new images.'') Destructive])"
  using assms
  by (auto simp: onSubmit_def trySave_def Let_def or_else_nonempty split: option.splits)

theorem onSubmit_update_upload_failed_witness:
  "newImageFiles example_edit_state \<noteq> []
   \<and> onSubmit (Some example_product) example_edit_state
        (Resolves \<lparr>rtype = ERROR, rdata = None, rmessage = Some ''Too large''\<rparr>)
        (Resolves ok_response) example_values =
       (example_edit_state\<lparr>form_isLoading := False, isUploading := False\<rparr>,
        [ApiCall (uploadFiles [File ''new.png'']), Toast ''Error'' ''Too large'' Destructive])"
proof -
  have n: "newImageFiles example_edit_state \<noteq> []"
    by (simp add: example_edit_state_def)
  from onSubmit_update_upload_failed
         [OF n, of "Resolves \<lparr>rtype = ERROR, rdata = None, rmessage = Some ''Too large''\<rparr>"
                  "\<lparr>rtype = ERROR, rdata = None, rmessage = Some ''Too large''\<rparr>"
                  example_product "Resolves ok_response" example_values] n
  show ?thesis
    by (simp add: or_else_def example_edit_state_def)
qed

lemma Number_text_minus_5: "Number_text env ''-5'' = Finite (- 5)"
  by (simp add: Number_text_def plain_decimal_def unsigned_decimal_def digit_of_def
        significant_digits_def to_double_def floor_log2_def round_half_even_def scale2_def
        pow2_def Let_def)

lemma Number_text_19_99:
  "Number_text env ''19.99'' = Finite (5626684784446013 / 281474976710656)"
  by (simp add: Number_text_def plain_decimal_def unsigned_decimal_def fraction_value_def
        digit_of_def significant_digits_def to_double_def floor_log2_def round_half_even_def
        scale2_def pow2_def Let_def)

lemma price_issues_minus_5:
  "price_issues env (Text ''-5'') = [Issue ''price'' ''Price must be a positive number.'']"
  by (simp add: price_issues_def Number_of_def Number_text_minus_5)

lemma price_issues_19_99: "price_issues env (Text ''19.99'') = []"
  by (simp add: price_issues_def Number_of_def Number_text_19_99)

text \<open>
  A stock text of 1 followed by 309 zeros is read as infinity, which is no integer: the
  schema reports it.
\<close>

lemma stock_issues_overflow:
  "stock_issues env (Some (Text (CHR ''1'' # replicate 309 (CHR ''0'')))) = [LibraryIssue ''stock'']"
proof -
  have d: "digits_value acc (replicate k (CHR ''0'')) = Some (acc * 10 ^ k)" for acc k
    by (induction k arbitrary: acc) (simp_all add: digit_of_def)
  have t: "takeWhile (\<lambda>c. c \<noteq> CHR ''.'') (CHR ''1'' # replicate 309 (CHR ''0''))
             = CHR ''1'' # replicate 309 (CHR ''0'')"
    by (simp add: takeWhile_eq_all_conv)
  have r: "dropWhile (\<lambda>c. c \<noteq> CHR ''.'') (CHR ''1'' # replicate 309 (CHR ''0'')) = []"
    by simp
  have u: "unsigned_decimal (CHR ''1'' # replicate 309 (CHR ''0'')) = Some (10 ^ 309, 1)"
    unfolding unsigned_decimal_def Let_def t r by (simp add: d digit_of_def)
  have f: "filter (\<lambda>c. digit_of c \<noteq> None) (CHR ''1'' # replicate 309 (CHR ''0''))
             = CHR ''1'' # replicate 309 (CHR ''0'')"
    by (simp add: digit_of_def)
  have s: "significant_digits (CHR ''1'' # replicate 309 (CHR ''0'')) = 1"
    unfolding significant_digits_def f by (simp add: dropWhile_append3)
  have n: "Number_text env (CHR ''1'' # replicate 309 (CHR ''0'')) = PosInfinity"
    by (simp add: Number_text_def plain_decimal_def u s to_double_def)
  show ?thesis
    by (simp add: stock_issues_def Number_of_def n)
qed

text \<open>
  C7. A price text "-5" fails the schema with the price message, whatever the other
  fields hold, and the submit handler is not run. A price text "19.99" with a category
  selected and no brand selected, in a form whose other fields are valid (a name of at
  least two characters, valid stock, status and image URLs), passes the schema with
  the double nearest to 19.99 as price and \<open>brandId\<close> undefined; the submit handler
  runs on these values, and in the create branch the form data it sends has no entry
  under \<open>brandId\<close>.
\<close>

theorem productSchema_price_and_brand:
  "(in_price x = Text ''-5'' \<longrightarrow>
      (\<exists>issues. handleSubmit env onValid x = Blocked issues
         \<and> Issue ''price'' ''Price must be a positive number.'' \<in> set issues))
   \<and> (in_price y = Text ''19.99'' \<and> in_categoryId y \<noteq> [] \<and> in_brandId y = None
        \<and> 2 \<le> length (in_name y) \<and> stock_issues env (in_stock y) = []
        \<and> (\<forall>s. in_status y = Some s \<longrightarrow> status_of_text s \<noteq> None)
        \<and> (\<forall>us. in_images y = Some us \<longrightarrow> (\<forall>u \<in> set us. isUrl env u))
      \<longrightarrow> (\<exists>values.
             productSchema_parse env y = Inr values
             \<and> v_price values = Finite (5626684784446013 / 281474976710656)
             \<and> v_brandId values = None
             \<and> handleSubmit env (onSubmit None st uploaded saved) y =
                 Submitted (onSubmit None st uploaded saved values)
             \<and> apiCalls (snd (onSubmit None st uploaded saved values)) =
                 [createProduct (createFormData values (newImageFiles st))]
             \<and> getAll (createFormData values (newImageFiles st)) ''brandId'' = []))"
proof (intro conjI impI)
  assume "in_price x = Text ''-5''"
  then have "Issue ''price'' ''Price must be a positive number.'' \<in> set (productSchema_issues env x)"
    by (simp add: productSchema_issues_def price_issues_minus_5)
  then show "\<exists>issues. handleSubmit env onValid x = Blocked issues
         \<and> Issue ''price'' ''Price must be a positive number.'' \<in> set issues"
    by (auto simp: handleSubmit_def productSchema_parse_def)
next
  assume h: "in_price y = Text ''19.99'' \<and> in_categoryId y \<noteq> [] \<and> in_brandId y = None
        \<and> 2 \<le> length (in_name y) \<and> stock_issues env (in_stock y) = []
        \<and> (\<forall>s. in_status y = Some s \<longrightarrow> status_of_text s \<noteq> None)
        \<and> (\<forall>us. in_images y = Some us \<longrightarrow> (\<forall>u \<in> set us. isUrl env u))"
  then have "filter (\<lambda>u. \<not> isUrl env u) (case in_images y of None \<Rightarrow> [] | Some us \<Rightarrow> us) = []"
    by (cases "in_images y") (simp_all add: filter_empty_conv)
  with h have "productSchema_issues env y = []"
    by (auto simp: productSchema_issues_def price_issues_19_99 split: option.splits)
  then have p: "productSchema_parse env y = Inr (productSchema_values env y)"
    by (simp add: productSchema_parse_def)
  have v: "v_price (productSchema_values env y) = Finite (5626684784446013 / 281474976710656)"
    "v_brandId (productSchema_values env y) = None"
    using h by (simp_all add: productSchema_values_def Number_of_def Number_text_19_99)
  have g: "getAll (createFormData (productSchema_values env y) (newImageFiles st)) ''brandId'' = []"
    using v(2) by (simp add: createFormData_def getAll_append getAll_files getAll_fields_brandId)
  from p v g show "\<exists>values.
             productSchema_parse env y = Inr values
             \<and> v_price values = Finite (5626684784446013 / 281474976710656)
             \<and> v_brandId values = None
             \<and> handleSubmit env (onSubmit None st uploaded saved) y =
                 Submitted (onSubmit None st uploaded saved values)
             \<and> apiCalls (snd (onSubmit None st uploaded saved values)) =
                 [createProduct (createFormData values (newImageFiles st))]
             \<and> getAll (createFormData values (newImageFiles st)) ''brandId'' = []"
    by (simp add: handleSubmit_def onSubmit_create_calls)
qed

theorem productSchema_price_and_brand_witness:
  "(\<exists>issues. handleSubmit example_env (onSubmit None example_form_state (Rejects None)
                 (Resolves ok_response))
                (example_form\<lparr>in_name := ''Shirt'', in_price := Text ''-5'', in_categoryId := ''c1''\<rparr>)
              = Blocked issues)
   \<and> (\<exists>values.
         productSchema_parse example_env
           (example_form\<lparr>in_name := ''Shirt'', in_price := Text ''19.99'', in_categoryId := ''c1''\<rparr>)
           = Inr values
         \<and> v_brandId values = None
         \<and> getAll (createFormData values (newImageFiles example_form_state)) ''brandId'' = [])"
proof -
  let ?x = "example_form\<lparr>in_name := ''Shirt'', in_price := Text ''-5'', in_categoryId := ''c1''\<rparr>"
  let ?y = "example_form\<lparr>in_name := ''Shirt'', in_price := Text ''19.99'', in_categoryId := ''c1''\<rparr>"
  have x: "in_price ?x = Text ''-5''"
    by simp
  have s: "stock_issues example_env (in_stock ?y) = []"
    by (simp add: example_form_def stock_issues_def Number_of_def)
  have y: "in_price ?y = Text ''19.99'' \<and> in_categoryId ?y \<noteq> [] \<and> in_brandId ?y = None
        \<and> 2 \<le> length (in_name ?y) \<and> stock_issues example_env (in_stock ?y) = []
        \<and> (\<forall>s. in_status ?y = Some s \<longrightarrow> status_of_text s \<noteq> None)
        \<and> (\<forall>us. in_images ?y = Some us \<longrightarrow> (\<forall>u \<in> set us. isUrl example_env u))"
    using s by (simp add: example_form_def status_of_text_def example_env_def)
  from productSchema_price_and_brand
         [of ?x example_env "onSubmit None example_form_state (Rejects None) (Resolves ok_response)"
             ?y example_form_state "Rejects None" "Resolves ok_response"] x y
  show ?thesis
    by blast
qed

section \<open>Products page: results\<close>

lemma page_fetchData_finish_calls: "apiCalls (snd (page_fetchData_finish fetched st)) = []"
  by (simp add: page_fetchData_finish_def Let_def split: outcome.splits option.splits)

text \<open>
  C6. Confirming the delete of an item: when the delete response has type OK the handler
  requests the products again with the page index and page size the page holds; when
  the response has another type, or the call rejects, it sends nothing but the delete
  request, shows one destructive "Error" toast, and leaves the product rows and the
  pagination as they were.
\<close>

theorem handleConfirmDelete_outcomes:
  assumes "itemToDeleteId st = Some itemId" and "itemId \<noteq> []"
  shows "(deleted = Resolves r \<and> rtype r = OK \<longrightarrow>
            apiCalls (snd (handleConfirmDelete st deleted fetched)) =
              [deleteProduct itemId,
               getProducts (pageIndex (pagination st) + 1) (pageSize (pagination st))])
         \<and> ((deleted = Resolves r \<and> rtype r \<noteq> OK) \<or> deleted = Rejects m \<longrightarrow>
              apiCalls (snd (handleConfirmDelete st deleted fetched)) = [deleteProduct itemId]
              \<and> (\<exists>d. toasts (snd (handleConfirmDelete st deleted fetched)) =
                        [(''Error'', d, Destructive)])
              \<and> products (fst (handleConfirmDelete st deleted fetched)) = products st
              \<and> pagination (fst (handleConfirmDelete st deleted fetched)) = pagination st)"
proof -
  have ok: "apiCalls (snd (handleConfirmDelete st deleted fetched)) =
              [deleteProduct itemId,
               getProducts (pageIndex (pagination st) + 1) (pageSize (pagination st))]"
    if ok: "deleted = Resolves r \<and> rtype r = OK"
  proof -
    obtain s2 e2 where f2: "page_fetchData_start (st\<lparr>page_isLoading := True\<rparr>) = (s2, e2)"
      by fastforce
    then have e2:
      "e2 = [ApiCall (getProducts (pageIndex (pagination st) + 1) (pageSize (pagination st)))]"
      by (auto simp: page_fetchData_start_def)
    obtain s4 e4 where f4:
      "page_fetchData_finish fetched
         (s2\<lparr>page_isLoading := False, isConfirmDeleteDialogOpen := False, itemToDeleteId := None\<rparr>)
        = (s4, e4)"
      by fastforce
    then have e4: "apiCalls e4 = []"
      using page_fetchData_finish_calls
              [of fetched "s2\<lparr>page_isLoading := False, isConfirmDeleteDialogOpen := False,
                                itemToDeleteId := None\<rparr>"]
      by simp
    from assms ok f2 f4 e2 e4 show ?thesis
      by (simp add: handleConfirmDelete_def Let_def apiCalls_append)
  qed
  have failed: "apiCalls (snd (handleConfirmDelete st deleted fetched)) = [deleteProduct itemId]
              \<and> (\<exists>d. toasts (snd (handleConfirmDelete st deleted fetched)) =
                        [(''Error'', d, Destructive)])
              \<and> products (fst (handleConfirmDelete st deleted fetched)) = products st
              \<and> pagination (fst (handleConfirmDelete st deleted fetched)) = pagination st"
    if "(deleted = Resolves r \<and> rtype r \<noteq> OK) \<or> deleted = Rejects m"
    using that assms by (auto simp: handleConfirmDelete_def Let_def)
  from ok failed show ?thesis
    by blast
qed

theorem handleConfirmDelete_outcomes_witness:
  "itemToDeleteId example_page = Some ''p1''
   \<and> apiCalls (snd (handleConfirmDelete example_page (Resolves ok_response) (Rejects None))) =
       [deleteProduct ''p1'', getProducts 3 10]
   \<and> apiCalls (snd (handleConfirmDelete example_page (Resolves error_response) (Rejects None))) =
       [deleteProduct ''p1'']
   \<and> products (fst (handleConfirmDelete example_page (Resolves error_response) (Rejects None))) =
       products example_page
   \<and> pagination (fst (handleConfirmDelete example_page (Resolves error_response) (Rejects None))) =
       pagination example_page"
proof -
  have i: "itemToDeleteId example_page = Some ''p1''" and n: "''p1'' \<noteq> []"
    by (simp_all add: example_page_def)
  have p: "pageIndex (pagination example_page) + 1 = 3" "pageSize (pagination example_page) = 10"
    by (simp_all add: example_page_def)
  have o: "rtype ok_response = OK" and e: "rtype error_response \<noteq> OK"
    by (simp_all add: ok_response_def error_response_def)
  from handleConfirmDelete_outcomes [OF i n, where deleted = "Resolves ok_response" and r = ok_response
                    and fetched = "Rejects None"] o p
  have a: "apiCalls (snd (handleConfirmDelete example_page (Resolves ok_response) (Rejects None))) =
       [deleteProduct ''p1'', getProducts 3 10]"
    by simp
  from handleConfirmDelete_outcomes
         [OF i n, where deleted = "Resolves error_response" and r = error_response
                    and fetched = "Rejects None"] e
  have b: "apiCalls (snd (handleConfirmDelete example_page (Resolves error_response) (Rejects None))) =
       [deleteProduct ''p1'']
   \<and> products (fst (handleConfirmDelete example_page (Resolves error_response) (Rejects None))) =
       products example_page
   \<and> pagination (fst (handleConfirmDelete example_page (Resolves error_response) (Rejects None))) =
       pagination example_page"
    by blast
  from i a b show ?thesis
    by blast
qed

text \<open>
  C8 (as amended). No fetch of the products list changes \<open>pageIndex\<close> or \<open>pageSize\<close>. After
  a response of type OK that carries a products list and pagination data, \<open>pageCount\<close>
  is the server's \<open>totalPages\<close>; after a response without a products list the whole
  pagination state is as before.
\<close>

theorem page_fetchData_pagination:
  "pageIndex (pagination (fst (page_fetchData fetched st))) = pageIndex (pagination st)
   \<and> pageSize (pagination (fst (page_fetchData fetched st))) = pageSize (pagination st)
   \<and> (fetched = Resolves r \<and> rtype r = OK \<and> rdata r = Some ps \<and> rpagination r = Some p
        \<longrightarrow> pagination (fst (page_fetchData fetched st)) =
              (pagination st)\<lparr>pageCount := totalPages p\<rparr>)
   \<and> (fetched = Resolves r \<and> rdata r = None
        \<longrightarrow> pagination (fst (page_fetchData fetched st)) = pagination st)"
  by (simp add: page_fetchData_def page_fetchData_start_def page_fetchData_finish_def Let_def
           split: outcome.splits option.splits prod.splits)

theorem page_fetchData_pagination_witness:
  "pagination (fst (page_fetchData
       (Resolves \<lparr>rtype = OK, rdata = Some [], rmessage = None,
                  rpagination = Some \<lparr>totalPages = 7, info_page = 3, info_pageSize = 10\<rparr>\<rparr>)
       example_page)) = \<lparr>pageIndex = 2, pageSize = 10, pageCount = 7\<rparr>"
  using page_fetchData_pagination
          [of "Resolves \<lparr>rtype = OK, rdata = Some [], rmessage = None,
                  rpagination = Some \<lparr>totalPages = 7, info_page = 3, info_pageSize = 10\<rparr>\<rparr>"
              example_page
              "\<lparr>rtype = OK, rdata = Some [], rmessage = None,
                  rpagination = Some \<lparr>totalPages = 7, info_page = 3, info_pageSize = 10\<rparr>\<rparr>"
              "[]" "\<lparr>totalPages = 7, info_page = 3, info_pageSize = 10\<rparr>"]
  by (simp add: example_page_def)

text \<open>
  The claim as the specification states it fails for a response of type OK that carries
  pagination data and no products list: the page shows the error toast and keeps its
  page count.
\<close>

theorem page_fetchData_no_products_counterexample:
  "pageCount (pagination example_page) = 1
   \<and> pageCount (pagination (fst (page_fetchData
       (Resolves \<lparr>rtype = OK, rdata = None, rmessage = None,
                  rpagination = Some \<lparr>totalPages = 7, info_page = 3, info_pageSize = 10\<rparr>\<rparr>)
       example_page))) = 1
   \<and> toasts (snd (page_fetchData
       (Resolves \<lparr>rtype = OK, rdata = None, rmessage = None,
                  rpagination = Some \<lparr>totalPages = 7, info_page = 3, info_pageSize = 10\<rparr>\<rparr>)
       example_page)) = [(''Error'', ''Failed to fetch products.'', Destructive)]"
  by code_simp

end
